theory Spec2Isabelle
  imports Main "HOL-Library.Word" "HOL-Library.AList"
begin

unbundle bit_operations_syntax

section \<open>Machine integers and constants\<close>

type_synonym u8 = "8 word"
type_synonym u32 = "32 word"
type_synonym u64 = "64 word"

text \<open>
  The macros of \<^verbatim>\<open>tc_bpf.c\<close>. \<^verbatim>\<open>TIME_HORIZON_NS\<close> is the \<^verbatim>\<open>int\<close> product
  \<^verbatim>\<open>2000 * 1000 * 1000\<close> (it fits 31 bits) and is compared with a 64-bit difference;
  \<^verbatim>\<open>NS_PER_SEC\<close> multiplies a 64-bit value. \<^verbatim>\<open>NS_PER_0_0_1_MS\<close> and
  \<^verbatim>\<open>PKT_LOSS_SCOPE\<close> are \<^verbatim>\<open>int\<close> constants combined with a \<^verbatim>\<open>uint32_t\<close>
  operand, so C computes with them in 32 bits, unsigned.
\<close>

definition TIME_HORIZON_NS :: u64 where
  "TIME_HORIZON_NS = 2000 * 1000 * 1000"

definition NS_PER_SEC :: u64 where
  "NS_PER_SEC = 1000000000"

definition NS_PER_0_0_1_MS :: u32 where
  "NS_PER_0_0_1_MS = 10000"

definition PKT_LOSS_SCOPE :: u32 where
  "PKT_LOSS_SCOPE = 10000"

text \<open>\<^verbatim>\<open>sizeof(struct ethhdr)\<close>: two 6-byte addresses and a 2-byte protocol field.\<close>

definition ETH_ALEN :: nat where
  "ETH_ALEN = 6"

definition ETH_HLEN :: nat where
  "ETH_HLEN = 14"

section \<open>BPF hash maps\<close>

text \<open>
  A map declared with \<^verbatim>\<open>__uint(max_entries, n)\<close>: the declared capacity and the entries,
  an association list with one pair for each key.
\<close>

record ('k, 'v) bpf_map =
  max_entries :: nat
  entries :: "('k \<times> 'v) list"

definition bpf_map_lookup_elem :: "('k, 'v) bpf_map \<Rightarrow> 'k \<Rightarrow> 'v option" where
  "bpf_map_lookup_elem m k = map_of (entries m) k"

text \<open>
  The kernel helper \<^verbatim>\<open>bpf_map_update_elem(map, key, value, BPF_ANY)\<close> on a hash map. It
  returns 0 after storing the value and a negative code after a failure, which leaves the
  map as it was. A new key in a map that already holds \<^verbatim>\<open>max_entries\<close> entries fails
  (\<^verbatim>\<open>-E2BIG\<close>); the kernel can also fail a call for a reason of its own (\<^verbatim>\<open>-ENOMEM\<close>,
  \<^verbatim>\<open>-EBUSY\<close>), which the first argument stands for.
\<close>

definition bpf_map_update_elem ::
  "bool \<Rightarrow> ('k, 'v) bpf_map \<Rightarrow> 'k \<Rightarrow> 'v \<Rightarrow> int \<times> ('k, 'v) bpf_map" where
  "bpf_map_update_elem kernel_failure m k v =
     (if kernel_failure then (- 12, m)
      else if map_of (entries m) k = None \<and> max_entries m \<le> length (entries m) then (- 7, m)
      else (0, m\<lparr>entries := AList.update k v (entries m)\<rparr>))"

section \<open>The data model of the traffic-control programs\<close>

text \<open>\<^verbatim>\<open>struct flow_key\<close> and \<^verbatim>\<open>struct handle_emu\<close> of \<^verbatim>\<open>ebpf-tc-c/header/maps.h\<close>.\<close>

record flow_key =
  ifindex :: u32
  src_mac :: "u8 list"

record handle_emu =
  throttle_rate_bps :: u32
  delay :: u32
  loss_rate :: u32
  jitter :: u32

text \<open>The two hash maps of \<^verbatim>\<open>ebpf-tc-c/header/maps.h\<close> that the programs use.\<close>

record tc_maps =
  MAC_HANDLE_EMU :: "(flow_key, handle_emu) bpf_map"
  flow_map :: "(flow_key, u64) bpf_map"

definition MAC_HANDLE_EMU_decl :: "(flow_key, handle_emu) bpf_map" where
  "MAC_HANDLE_EMU_decl = \<lparr>max_entries = 65535, entries = []\<rparr>"

definition flow_map_decl :: "(flow_key, u64) bpf_map" where
  "flow_map_decl = \<lparr>max_entries = 65535, entries = []\<rparr>"

text \<open>
  The fields of \<^verbatim>\<open>struct __sk_buff\<close> that the programs read or write: \<^verbatim>\<open>len\<close>,
  \<^verbatim>\<open>ifindex\<close>, \<^verbatim>\<open>tstamp\<close>, and the bytes between \<^verbatim>\<open>data\<close> and \<^verbatim>\<open>data_end\<close>.
\<close>

record sk_buff =
  skb_len :: u32
  skb_ifindex :: u32
  skb_tstamp :: u64
  skb_data :: "u8 list"

text \<open>
  What the kernel answers during one run of a program: \<^verbatim>\<open>bpf_ktime_get_ns()\<close>,
  \<^verbatim>\<open>bpf_get_prandom_u32()\<close> (each program calls either at most once), and whether
  the kernel fails the run's map update for a reason of its own.
\<close>

record kernel =
  ktime_get_ns :: u64
  get_prandom_u32 :: u32
  update_failure :: bool

text \<open>
  The outcome of a traffic-control program. \<^verbatim>\<open>TAIL_CALL i\<close> stands for
  \<^verbatim>\<open>bpf_tail_call(skb, &progs, i); return TC_ACT_OK;\<close>: the packet goes on to the program
  in slot \<^verbatim>\<open>i\<close> of \<^verbatim>\<open>progs\<close>, and is accepted as it is when the slot is empty.
\<close>

datatype tc_verdict = TC_ACT_OK | TC_ACT_SHOT | TAIL_CALL u32

datatype fault = DivisionByZero

record ethhdr =
  h_dest :: "u8 list"
  h_source :: "u8 list"
  h_proto :: "u8 list"

text \<open>
  Modelled from the spec: \<^verbatim>\<open>parse_ethhdr\<close> of \<^verbatim>\<open>header/helpers.h\<close>, which is not among
  the sources. The spec says of it that the header is parsed just far enough to extract the
  hardware addresses and that a truncated header is a drop, found before any table lookup:
  \<^verbatim>\<open>None\<close> stands for the \<^verbatim>\<open>TC_ACT_SHOT\<close> it returns when the 14 bytes of the header
  do not fit before \<^verbatim>\<open>data_end\<close>.
\<close>

definition parse_ethhdr :: "u8 list \<Rightarrow> ethhdr option" where
  "parse_ethhdr bytes =
     (if length bytes < ETH_HLEN then None
      else Some \<lparr>h_dest = take ETH_ALEN bytes,
                 h_source = take ETH_ALEN (drop ETH_ALEN bytes),
                 h_proto = take 2 (drop (2 * ETH_ALEN) bytes)\<rparr>)"

section \<open>Delay and jitter\<close>

text \<open>
  Lines 27 and 29 of \<^verbatim>\<open>inject_delay_jitter\<close>: \<^verbatim>\<open>(*delay) * NS_PER_0_0_1_MS\<close>. The
  product of a \<^verbatim>\<open>uint32_t\<close> and an \<^verbatim>\<open>int\<close> is computed in 32 bits, unsigned, and only
  then widened to the 64-bit variable.
\<close>

definition hundredths_to_ns :: "u32 \<Rightarrow> u64" where
  "hundredths_to_ns v = ucast (v * NS_PER_0_0_1_MS)"

text \<open>
  Lines 33 to 39: the \<^verbatim>\<open>int64_t random_jitter\<close>, kept as its 64-bit pattern (\<open>sint\<close>
  reads it). The divisor \<^verbatim>\<open>2 * jitter_ns + 1\<close> is odd, so the remainder is always defined.
\<close>

definition random_jitter :: "kernel \<Rightarrow> u64 \<Rightarrow> u64" where
  "random_jitter kern jitter_ns =
     (if 0 < jitter_ns
      then (ucast (get_prandom_u32 kern) :: u64) mod (2 * jitter_ns + 1) - jitter_ns
      else 0)"

definition inject_delay_jitter :: "kernel \<Rightarrow> sk_buff \<Rightarrow> u32 \<Rightarrow> u32 \<Rightarrow> tc_verdict \<times> sk_buff" where
  "inject_delay_jitter kern skb delay_v jitter_v =
     (let now = ktime_get_ns kern;
          delay_ns = hundredths_to_ns delay_v;
          jitter_ns = hundredths_to_ns jitter_v;
          ts = skb_tstamp skb;
          new_ts =
            (if ts = 0 then now + delay_ns + random_jitter kern jitter_ns
             else ts + delay_ns + random_jitter kern jitter_ns)
      in (TC_ACT_OK, skb\<lparr>skb_tstamp := new_ts\<rparr>))"

text \<open>
  The program \<^verbatim>\<open>delay_jitter\<close>. The two tests \<^verbatim>\<open>if (!delay)\<close> and \<^verbatim>\<open>if (!jitter)\<close>
  are on the addresses of fields of an entry that was found, which are never null.
\<close>

definition delay_jitter :: "kernel \<Rightarrow> tc_maps \<Rightarrow> sk_buff \<Rightarrow> tc_verdict \<times> sk_buff" where
  "delay_jitter kern maps skb =
     (case parse_ethhdr (skb_data skb) of
        None \<Rightarrow> (TC_ACT_SHOT, skb)
      | Some eth \<Rightarrow>
          (let key = \<lparr>ifindex = skb_ifindex skb, src_mac = h_source eth\<rparr>
           in case bpf_map_lookup_elem (MAC_HANDLE_EMU maps) key of
                None \<Rightarrow> (TC_ACT_OK, skb)
              | Some val_struct \<Rightarrow>
                  inject_delay_jitter kern skb (delay val_struct) (jitter val_struct)))"

section \<open>Loss and throttling\<close>

text \<open>
  Line 117 of \<^verbatim>\<open>throttle_flow\<close>: \<^verbatim>\<open>((uint64_t)skb->len) * 8 * NS_PER_SEC / *throttle_rate_bps\<close>,
  a 64-bit unsigned division. C leaves a division by zero undefined; it is a fault here.
\<close>

definition throttle_delay_ns :: "u32 \<Rightarrow> u32 \<Rightarrow> fault + u64" where
  "throttle_delay_ns len rate =
     (if (ucast rate :: u64) = 0 then Inl DivisionByZero
      else Inr ((ucast len :: u64) * 8 * NS_PER_SEC div ucast rate))"

text \<open>Lines 119 to 159 of \<^verbatim>\<open>throttle_flow\<close>, once \<^verbatim>\<open>delay_ns\<close> is there.\<close>

definition throttle_pace ::
  "kernel \<Rightarrow> (flow_key, u64) bpf_map \<Rightarrow> sk_buff \<Rightarrow> flow_key \<Rightarrow> u64 option \<Rightarrow> u64 \<Rightarrow>
     tc_verdict \<times> (flow_key, u64) bpf_map \<times> sk_buff" where
  "throttle_pace kern fm skb key last_tstamp delay_ns =
     (let now = ktime_get_ns kern;
          tstamp = (if skb_tstamp skb < now then now else skb_tstamp skb);
          next_tstamp =
            (case last_tstamp of
               Some last_ts \<Rightarrow> last_ts + delay_ns
             | None \<Rightarrow> tstamp + delay_ns)
      in if next_tstamp \<le> tstamp then
           (let new_base = tstamp + delay_ns;
                upd = bpf_map_update_elem (update_failure kern) fm key new_base
            in (TAIL_CALL 0, snd upd, skb))
         else if TIME_HORIZON_NS \<le> next_tstamp - now then (TC_ACT_SHOT, fm, skb)
         else
           (let upd = bpf_map_update_elem (update_failure kern) fm key next_tstamp
            in if fst upd \<noteq> 0 then (TC_ACT_SHOT, snd upd, skb)
               else (TAIL_CALL 0, snd upd, skb\<lparr>skb_tstamp := next_tstamp\<rparr>)))"

definition throttle_flow ::
  "kernel \<Rightarrow> (flow_key, u64) bpf_map \<Rightarrow> sk_buff \<Rightarrow> flow_key \<Rightarrow> u32 \<Rightarrow>
     fault + tc_verdict \<times> (flow_key, u64) bpf_map \<times> sk_buff" where
  "throttle_flow kern fm skb key rate =
     (let last_tstamp = bpf_map_lookup_elem fm key
      in case throttle_delay_ns (skb_len skb) rate of
           Inl f \<Rightarrow> Inl f
         | Inr delay_ns \<Rightarrow> Inr (throttle_pace kern fm skb key last_tstamp delay_ns))"

text \<open>
  The loss test of \<^verbatim>\<open>loss_bps\<close> (lines 199 to 207): the remainder is computed in 32 bits,
  unsigned.
\<close>

definition loss_drop :: "kernel \<Rightarrow> u32 \<Rightarrow> bool" where
  "loss_drop kern rate =
     (0 < rate \<and> get_prandom_u32 kern mod PKT_LOSS_SCOPE < rate)"

text \<open>
  Lines 211 to 217 of \<^verbatim>\<open>loss_bps\<close>: the call of \<^verbatim>\<open>throttle_flow\<close> on the entry's
  rate. The test \<^verbatim>\<open>if (!throttle_rate_bps)\<close> before it is on the address of a field of the
  entry that was found; that address is never null, so the test never returns, and the rate
  itself is not tested.
\<close>

definition throttle_stage ::
  "kernel \<Rightarrow> tc_maps \<Rightarrow> sk_buff \<Rightarrow> flow_key \<Rightarrow> u32 \<Rightarrow> fault + tc_verdict \<times> tc_maps \<times> sk_buff" where
  "throttle_stage kern maps skb key rate =
     (case throttle_flow kern (flow_map maps) skb key rate of
        Inl f \<Rightarrow> Inl f
      | Inr (verdict, fm, skb') \<Rightarrow> Inr (verdict, maps\<lparr>flow_map := fm\<rparr>, skb'))"

text \<open>The program \<^verbatim>\<open>loss_bps\<close>.\<close>

definition loss_bps ::
  "kernel \<Rightarrow> tc_maps \<Rightarrow> sk_buff \<Rightarrow> fault + tc_verdict \<times> tc_maps \<times> sk_buff" where
  "loss_bps kern maps skb =
     (case parse_ethhdr (skb_data skb) of
        None \<Rightarrow> Inr (TC_ACT_SHOT, maps, skb)
      | Some eth \<Rightarrow>
          (let key = \<lparr>ifindex = skb_ifindex skb, src_mac = h_source eth\<rparr>
           in case bpf_map_lookup_elem (MAC_HANDLE_EMU maps) key of
                None \<Rightarrow> Inr (TC_ACT_OK, maps, skb)
              | Some val_struct \<Rightarrow>
                  if loss_drop kern (loss_rate val_struct) then Inr (TC_ACT_SHOT, maps, skb)
                  else throttle_stage kern maps skb key (throttle_rate_bps val_struct)))"

text \<open>
  When a packet leaves: at its timestamp, or at once when the timestamp is unset or already
  past. It is the value that line 123 of \<^verbatim>\<open>throttle_flow\<close> computes into \<^verbatim>\<open>tstamp\<close>.
\<close>

definition departure :: "kernel \<Rightarrow> sk_buff \<Rightarrow> u64" where
  "departure kern skb =
     (if skb_tstamp skb < ktime_get_ns kern then ktime_get_ns kern else skb_tstamp skb)"

section \<open>Layer-2 forwarding\<close>

text \<open>
  \<^verbatim>\<open>struct xdp_md\<close>: the bytes between \<^verbatim>\<open>data\<close> and \<^verbatim>\<open>data_end\<close>, and the ingress
  interface. \<^verbatim>\<open>struct mac_key\<close> and the maps \<^verbatim>\<open>mac_table\<close> and \<^verbatim>\<open>tx_ports\<close> are
  those that \<^verbatim>\<open>xdp_bpf.c\<close> declares itself; \<^verbatim>\<open>struct bpf_devmap_val\<close> is the kernel's
  (an interface and the program attached to it).
\<close>

record xdp_md =
  xdp_data :: "u8 list"
  ingress_ifindex :: u32

record mac_key =
  mac :: "u8 list"

record bpf_devmap_val =
  dev_ifindex :: u32
  dev_prog :: u32

record xdp_maps =
  mac_table :: "(mac_key, u32) bpf_map"
  tx_ports :: "(u32, bpf_devmap_val) bpf_map"

definition mac_table_decl :: "(mac_key, u32) bpf_map" where
  "mac_table_decl = \<lparr>max_entries = 65535, entries = []\<rparr>"

definition tx_ports_decl :: "(u32, bpf_devmap_val) bpf_map" where
  "tx_ports_decl = \<lparr>max_entries = 1024, entries = []\<rparr>"

text \<open>
  \<^verbatim>\<open>fdb_map\<close> of \<^verbatim>\<open>ebpf-xdp-c/header/maps.h\<close>. The program \<^verbatim>\<open>xdp_l2_fwd_prog\<close> does
  not include that header and never reads this map.
\<close>

definition fdb_map_decl :: "(mac_key, u32) bpf_map" where
  "fdb_map_decl = \<lparr>max_entries = 1024, entries = []\<rparr>"

datatype xdp_action = XDP_ABORTED | XDP_DROP | XDP_PASS | XDP_TX | XDP_REDIRECT

text \<open>
  Where the kernel sends a packet whose program returned \<^verbatim>\<open>XDP_REDIRECT\<close>: to one entry
  of the device map, or to all of them (the flag says whether the ingress interface is left
  out).
\<close>

datatype redirect = No_redirect | To_device bpf_devmap_val | To_all bool

definition BPF_F_BROADCAST :: u64 where
  "BPF_F_BROADCAST = 8"

definition BPF_F_EXCLUDE_INGRESS :: u64 where
  "BPF_F_EXCLUDE_INGRESS = 16"

definition xdp_action_of :: "u64 \<Rightarrow> xdp_action" where
  "xdp_action_of c =
     (if c = 0 then XDP_ABORTED else if c = 1 then XDP_DROP
      else if c = 2 then XDP_PASS else XDP_TX)"

text \<open>
  The kernel helper \<^verbatim>\<open>bpf_redirect_map(map, key, flags)\<close> on a device map. With
  \<^verbatim>\<open>BPF_F_BROADCAST\<close> the key is ignored and the packet goes to all entries. Otherwise the
  key is looked up; when the map has no entry under it, the helper returns the two low bits
  of the flags as the program's action, which is \<^verbatim>\<open>XDP_ABORTED\<close> for the flags \<^verbatim>\<open>0\<close>.
\<close>

definition bpf_redirect_map ::
  "(u32, bpf_devmap_val) bpf_map \<Rightarrow> u32 \<Rightarrow> u64 \<Rightarrow> xdp_action \<times> redirect" where
  "bpf_redirect_map m key flags =
     (if flags AND NOT (3 OR BPF_F_BROADCAST OR BPF_F_EXCLUDE_INGRESS) \<noteq> 0
      then (XDP_ABORTED, No_redirect)
      else if flags AND BPF_F_BROADCAST \<noteq> 0
      then (XDP_REDIRECT, To_all (flags AND BPF_F_EXCLUDE_INGRESS \<noteq> 0))
      else case bpf_map_lookup_elem m key of
             None \<Rightarrow> (xdp_action_of (flags AND 3), No_redirect)
           | Some v \<Rightarrow> (XDP_REDIRECT, To_device v))"

text \<open>The interfaces that transmit the packet after the program has returned.\<close>

definition egress_interfaces ::
  "(u32, bpf_devmap_val) bpf_map \<Rightarrow> u32 \<Rightarrow> xdp_action \<times> redirect \<Rightarrow> u32 set" where
  "egress_interfaces ports ingress outcome =
     (if fst outcome = XDP_REDIRECT then
        (case snd outcome of
           No_redirect \<Rightarrow> {}
         | To_device v \<Rightarrow> {dev_ifindex v}
         | To_all exclude_ingress \<Rightarrow>
             (if exclude_ingress
              then set (filter (\<lambda>i. i \<noteq> ingress) (map (\<lambda>e. dev_ifindex (snd e)) (entries ports)))
              else set (map (\<lambda>e. dev_ifindex (snd e)) (entries ports))))
      else {})"

text \<open>
  The program \<^verbatim>\<open>xdp_l2_fwd_prog\<close>. \<^verbatim>\<open>(void *)(eth + 1) > data_end\<close> says that fewer than
  the 14 bytes of the header are there.
\<close>

definition xdp_l2_fwd_prog :: "xdp_maps \<Rightarrow> xdp_md \<Rightarrow> xdp_action \<times> redirect" where
  "xdp_l2_fwd_prog maps ctx =
     (let bytes = xdp_data ctx
      in if length bytes < ETH_HLEN then (XDP_DROP, No_redirect)
         else
           (let dest = take ETH_ALEN bytes
            in if (dest ! 0) AND 1 \<noteq> 0 then
                 bpf_redirect_map (tx_ports maps) 0 (BPF_F_BROADCAST OR BPF_F_EXCLUDE_INGRESS)
               else
                 (case bpf_map_lookup_elem (mac_table maps) \<lparr>mac = dest\<rparr> of
                    Some dest_ifindex \<Rightarrow> bpf_redirect_map (tx_ports maps) dest_ifindex 0
                  | None \<Rightarrow> (XDP_PASS, No_redirect))))"

section \<open>Runs of map updates\<close>

text \<open>
  The state of a map after a sequence of \<^verbatim>\<open>bpf_map_update_elem\<close> calls, each with its
  key, its value and whether the kernel fails it.
\<close>

fun bpf_map_updates :: "(bool \<times> 'k \<times> 'v) list \<Rightarrow> ('k, 'v) bpf_map \<Rightarrow> ('k, 'v) bpf_map" where
  "bpf_map_updates [] m = m"
| "bpf_map_updates ((failure, k, v) # calls) m =
     bpf_map_updates calls (snd (bpf_map_update_elem failure m k v))"

text \<open>Learning the first \<open>n\<close> of a family of distinct hardware addresses, one call each.\<close>

definition mac_of_nat :: "nat \<Rightarrow> mac_key" where
  "mac_of_nat i = \<lparr>mac = [2, 0, 0, 0, word_of_nat (i div 256), word_of_nat (i mod 256)]\<rparr>"

definition learn_macs :: "nat \<Rightarrow> (bool \<times> mac_key \<times> u32) list" where
  "learn_macs n = map (\<lambda>i. (False, mac_of_nat i, 1)) [0..<n]"

section \<open>The spec's wording and its concrete scenario\<close>

text \<open>
  The base of the new timestamp as the spec words it for the delay stage: the current
  timestamp if it is nonzero and itself already in the future, else now.
\<close>

definition spec_delay_base :: "u64 \<Rightarrow> u64 \<Rightarrow> u64" where
  "spec_delay_base now ts = (if ts \<noteq> 0 \<and> now < ts then ts else now)"

text \<open>
  The scenario of the spec: interface 3, source address \<^verbatim>\<open>AA:BB:CC:DD:EE:FF\<close>, packets of
  1500 bytes. The frame is such a packet: an ethernet header, sent to the unicast address
  \<^verbatim>\<open>02:00:00:00:00:01\<close>, and 1486 bytes of payload.
\<close>

definition scenario_key :: flow_key where
  "scenario_key = \<lparr>ifindex = 3, src_mac = [0xAA, 0xBB, 0xCC, 0xDD, 0xEE, 0xFF]\<rparr>"

definition scenario_frame :: "u8 list" where
  "scenario_frame =
     [2, 0, 0, 0, 0, 1, 0xAA, 0xBB, 0xCC, 0xDD, 0xEE, 0xFF, 8, 0] @ replicate 1486 0"

definition scenario_skb :: "u64 \<Rightarrow> sk_buff" where
  "scenario_skb ts =
     \<lparr>skb_len = 1500, skb_ifindex = 3, skb_tstamp = ts, skb_data = scenario_frame\<rparr>"

definition scenario_maps :: "handle_emu \<Rightarrow> (flow_key \<times> u64) list \<Rightarrow> tc_maps" where
  "scenario_maps spec pacing =
     \<lparr>MAC_HANDLE_EMU = \<lparr>max_entries = 65535, entries = [(scenario_key, spec)]\<rparr>,
      flow_map = \<lparr>max_entries = 65535, entries = pacing\<rparr>\<rparr>"

definition scenario_kernel :: "u64 \<Rightarrow> bool \<Rightarrow> kernel" where
  "scenario_kernel now failure =
     \<lparr>ktime_get_ns = now, get_prandom_u32 = 7, update_failure = failure\<rparr>"

definition scenario_spec :: handle_emu where
  "scenario_spec = \<lparr>throttle_rate_bps = 1000000, delay = 100, loss_rate = 0, jitter = 0\<rparr>"

text \<open>
  A forwarding state for the scenario's frame: its destination is configured with the egress
  interface 5, and the device map holds the given entries.
\<close>

definition scenario_xdp_maps :: "(u32 \<times> bpf_devmap_val) list \<Rightarrow> xdp_maps" where
  "scenario_xdp_maps ports =
     \<lparr>mac_table = \<lparr>max_entries = 65535, entries = [(\<lparr>mac = [2, 0, 0, 0, 0, 1]\<rparr>, 5)]\<rparr>,
      tx_ports = \<lparr>max_entries = 1024, entries = ports\<rparr>\<rparr>"

definition scenario_ctx :: xdp_md where
  "scenario_ctx = \<lparr>xdp_data = scenario_frame, ingress_ifindex = 3\<rparr>"

section \<open>Facts about machine integers\<close>

lemma unat_u32_lt: "unat (w :: u32) < 4294967296"
  using unsigned_less [of w, where 'a = nat] by simp

lemma unat_ucast_32_64: "unat (ucast (w :: u32) :: u64) = unat w"
proof -
  have "unat w < 2 ^ 64"
    using unat_u32_lt [of w] by simp
  then show ?thesis
    by (simp add: unsigned_ucast_eq take_bit_nat_eq_self)
qed



lemma sint_small:
  fixes k :: int
  assumes "- 9223372036854775808 \<le> k" and "k < 9223372036854775808"
  shows "sint (word_of_int k :: u64) = k"
  using assms by (simp add: signed_of_int signed_take_bit_int_eq_self)

lemma uint_word_of_int_u64:
  "uint (word_of_int k :: u64) = k mod 18446744073709551616"
  by (simp add: uint_word_of_int_eq take_bit_eq_mod)

lemma uint_sum_signed:
  fixes a b c :: u64
  shows "uint (a + b + c) = (uint a + uint b + sint c) mod 18446744073709551616"
proof -
  have "a + b + c = word_of_int (uint a + uint b + sint c)"
    by simp
  then have "uint (a + b + c) = uint (word_of_int (uint a + uint b + sint c) :: u64)"
    by (rule arg_cong)
  then show ?thesis
    by (simp only: uint_word_of_int_u64)
qed

lemma horizon_unat: "unat TIME_HORIZON_NS = 2000000000"
  by (simp add: TIME_HORIZON_NS_def)

lemma low_bit: "(w :: u8) AND 1 \<noteq> 0 \<longleftrightarrow> bit w 0"
  by (simp add: and_one_eq bit_0 mod_2_eq_odd)

section \<open>Facts about the scenario\<close>

lemma parse_scenario_frame:
  "parse_ethhdr scenario_frame =
     Some \<lparr>h_dest = [2, 0, 0, 0, 0, 1],
           h_source = [0xAA, 0xBB, 0xCC, 0xDD, 0xEE, 0xFF],
           h_proto = [8, 0]\<rparr>"
  by (simp add: parse_ethhdr_def scenario_frame_def ETH_HLEN_def ETH_ALEN_def)

lemmas scenario_defs =
  scenario_skb_def scenario_maps_def scenario_spec_def scenario_key_def scenario_kernel_def


section \<open>Facts about the conversion and the jitter\<close>

lemma unat_hundredths_to_ns:
  "unat (hundredths_to_ns v) = unat v * 10000 mod 4294967296"
  by (simp add: hundredths_to_ns_def NS_PER_0_0_1_MS_def unat_ucast_32_64 unat_word_ariths)

lemma hundredths_to_ns_lt: "unat (hundredths_to_ns v) < 4294967296"
  by (simp add: unat_hundredths_to_ns)

lemma jitter_word:
  fixes jn :: u64 and r :: u32
  shows "(ucast r :: u64) mod (2 * jn + 1) - jn
         = word_of_int (int (unat (ucast r :: u64) mod unat (2 * jn + 1)) - int (unat jn))"
  by (simp add: unat_mod [symmetric])

lemma unat_jitter_span:
  fixes jn :: u64
  assumes "unat jn < 4294967296"
  shows "unat (2 * jn + 1) = 2 * unat jn + 1"
  using assms by (simp add: unat_word_ariths)

lemma sint_random_jitter:
  assumes "unat jn < 4294967296"
  shows "sint (random_jitter kern jn) =
           (if jn = 0 then 0
            else int (unat (get_prandom_u32 kern) mod (2 * unat jn + 1)) - int (unat jn))"
proof (cases "jn = 0")
  case True
  then show ?thesis by (simp add: random_jitter_def)
next
  case False
  then have pos: "0 < jn" by (simp add: word_greater_zero_iff)
  let ?k = "int (unat (get_prandom_u32 kern) mod (2 * unat jn + 1)) - int (unat jn)"
  have m: "unat (get_prandom_u32 kern) mod (2 * unat jn + 1) \<le> 2 * unat jn"
    by (simp add: less_Suc_eq_le [symmetric])
  have lo: "- 9223372036854775808 \<le> ?k" using assms by linarith
  have hi: "?k < 9223372036854775808" using assms m by linarith
  have "random_jitter kern jn = word_of_int ?k"
    using pos
    by (simp add: random_jitter_def jitter_word unat_jitter_span [OF assms] unat_ucast_32_64)
  then show ?thesis using False sint_small [OF lo hi] by simp
qed

lemma delay_jitter_found:
  assumes "parse_ethhdr (skb_data skb) = Some eth"
    and "bpf_map_lookup_elem (MAC_HANDLE_EMU maps)
           \<lparr>ifindex = skb_ifindex skb, src_mac = h_source eth\<rparr> = Some e"
  shows "delay_jitter kern maps skb =
           (TC_ACT_OK,
            skb\<lparr>skb_tstamp :=
                  (if skb_tstamp skb = 0 then ktime_get_ns kern else skb_tstamp skb)
                  + hundredths_to_ns (delay e)
                  + random_jitter kern (hundredths_to_ns (jitter e))\<rparr>)"
  using assms by (simp add: delay_jitter_def inject_delay_jitter_def Let_def)

section \<open>Facts about map updates\<close>

lemma length_alist_update:
  "length (AList.update k v al) = (if k \<in> fst ` set al then length al else Suc (length al))"
  by (induction al) auto



lemma update_keeps_capacity:
  "max_entries (snd (bpf_map_update_elem f m k v)) = max_entries m"
  by (simp add: bpf_map_update_elem_def)

lemma update_within_capacity:
  assumes "length (entries m) \<le> max_entries m"
  shows "length (entries (snd (bpf_map_update_elem f m k v))) \<le> max_entries m"
  using assms
  by (auto simp add: bpf_map_update_elem_def length_alist_update map_of_eq_None_iff)

lemma update_keeps_distinct:
  assumes "distinct (map fst (entries m))"
  shows "distinct (map fst (entries (snd (bpf_map_update_elem f m k v))))"
  using assms by (simp add: bpf_map_update_elem_def distinct_update)

lemma updates_within_capacity:
  assumes "length (entries m) \<le> max_entries m" and "distinct (map fst (entries m))"
  shows "length (entries (bpf_map_updates calls m)) \<le> max_entries m
         \<and> distinct (map fst (entries (bpf_map_updates calls m)))"
  using assms
proof (induction calls arbitrary: m)
  case Nil
  then show ?case by simp
next
  case (Cons c calls)
  obtain f k v where c: "c = (f, k, v)" by (cases c) auto
  let ?m = "snd (bpf_map_update_elem f m k v)"
  have "length (entries ?m) \<le> max_entries ?m"
    using Cons.prems(1) by (simp add: update_within_capacity update_keeps_capacity)
  moreover have "distinct (map fst (entries ?m))"
    using Cons.prems(2) by (rule update_keeps_distinct)
  ultimately have "length (entries (bpf_map_updates calls ?m)) \<le> max_entries ?m
         \<and> distinct (map fst (entries (bpf_map_updates calls ?m)))"
    by (rule Cons.IH)
  then show ?case by (simp add: c update_keeps_capacity)
qed

lemma updates_append:
  "bpf_map_updates (xs @ ys) m = bpf_map_updates ys (bpf_map_updates xs m)"
  by (induction xs arbitrary: m) auto

section \<open>Facts about pacing\<close>


lemma throttle_pace_unfold:
  "throttle_pace kern fm skb key last_ts d =
     (if (case last_ts of Some l \<Rightarrow> l + d | None \<Rightarrow> departure kern skb + d) \<le> departure kern skb
      then (TAIL_CALL 0,
            snd (bpf_map_update_elem (update_failure kern) fm key (departure kern skb + d)),
            skb)
      else if TIME_HORIZON_NS
                \<le> (case last_ts of Some l \<Rightarrow> l + d | None \<Rightarrow> departure kern skb + d)
                   - ktime_get_ns kern
      then (TC_ACT_SHOT, fm, skb)
      else if fst (bpf_map_update_elem (update_failure kern) fm key
                     (case last_ts of Some l \<Rightarrow> l + d | None \<Rightarrow> departure kern skb + d)) \<noteq> 0
      then (TC_ACT_SHOT,
            snd (bpf_map_update_elem (update_failure kern) fm key
                   (case last_ts of Some l \<Rightarrow> l + d | None \<Rightarrow> departure kern skb + d)),
            skb)
      else (TAIL_CALL 0,
            snd (bpf_map_update_elem (update_failure kern) fm key
                   (case last_ts of Some l \<Rightarrow> l + d | None \<Rightarrow> departure kern skb + d)),
            skb\<lparr>skb_tstamp :=
                   (case last_ts of Some l \<Rightarrow> l + d | None \<Rightarrow> departure kern skb + d)\<rparr>))"
  by (simp only: throttle_pace_def departure_def Let_def)


lemma pace_backlog:
  assumes "\<not> (case last_ts of Some l \<Rightarrow> l + d | None \<Rightarrow> departure kern skb + d) \<le> departure kern skb"
    and "nxt = (case last_ts of Some l \<Rightarrow> l + d | None \<Rightarrow> departure kern skb + d)"
  shows "throttle_pace kern fm skb key last_ts d =
           (if TIME_HORIZON_NS \<le> nxt - ktime_get_ns kern then (TC_ACT_SHOT, fm, skb)
            else if fst (bpf_map_update_elem (update_failure kern) fm key nxt) \<noteq> 0
            then (TC_ACT_SHOT, snd (bpf_map_update_elem (update_failure kern) fm key nxt), skb)
            else (TAIL_CALL 0, snd (bpf_map_update_elem (update_failure kern) fm key nxt),
                  skb\<lparr>skb_tstamp := nxt\<rparr>))"
  using assms by (simp only: throttle_pace_unfold if_False)

lemma departure_ge_now: "ktime_get_ns kern \<le> departure kern skb"
  by (simp add: departure_def not_less)


lemma case_plus:
  "(case x of Some l \<Rightarrow> l | None \<Rightarrow> b) + (d :: u64) = (case x of Some l \<Rightarrow> l + d | None \<Rightarrow> b + d)"
  by (simp split: option.split)






section \<open>Facts about redirection\<close>

lemma broadcast_flags:
  "bpf_redirect_map ports k (BPF_F_BROADCAST OR BPF_F_EXCLUDE_INGRESS) = (XDP_REDIRECT, To_all True)"
  by (simp add: bpf_redirect_map_def BPF_F_BROADCAST_def BPF_F_EXCLUDE_INGRESS_def)

lemma unicast_flags:
  "bpf_redirect_map ports k 0 =
     (case bpf_map_lookup_elem ports k of
        None \<Rightarrow> (XDP_ABORTED, No_redirect)
      | Some v \<Rightarrow> (XDP_REDIRECT, To_device v))"
  by (simp add: bpf_redirect_map_def BPF_F_BROADCAST_def BPF_F_EXCLUDE_INGRESS_def xdp_action_of_def
      split: option.split)

section \<open>Throttling with a rate of zero\<close>

text \<open>
  C1. The claim: a flow whose entry has \<^verbatim>\<open>throttle_rate_bps == 0\<close> continues without pacing,
  the division by the rate is never evaluated with a zero divisor, and the flow's pacing
  entry is left unchanged. The code does not do this. For the scenario's flow with the rate
  set to 0, \<^verbatim>\<open>loss_bps\<close> reaches the division of line 117 with the divisor 0. And where
  the platform gives that division the quotient 0, as the eBPF machine does, the rest of
  \<^verbatim>\<open>throttle_flow\<close> stores a pacing entry for the flow in a table that had none.
\<close>

theorem C1_zero_rate_reaches_division:
  "loss_bps (scenario_kernel 1000 False)
     (scenario_maps (scenario_spec\<lparr>throttle_rate_bps := 0\<rparr>) []) (scenario_skb 0)
     = Inl DivisionByZero
   \<and> throttle_pace (scenario_kernel 1000 False) \<lparr>max_entries = 65535, entries = []\<rparr>
       (scenario_skb 0) scenario_key None 0
     = (TAIL_CALL 0, \<lparr>max_entries = 65535, entries = [(scenario_key, 1000)]\<rparr>, scenario_skb 0)"
proof
  show "loss_bps (scenario_kernel 1000 False)
          (scenario_maps (scenario_spec\<lparr>throttle_rate_bps := 0\<rparr>) []) (scenario_skb 0)
        = Inl DivisionByZero"
    by (simp add: loss_bps_def parse_scenario_frame scenario_defs bpf_map_lookup_elem_def
        loss_drop_def throttle_stage_def throttle_flow_def throttle_delay_ns_def)
  show "throttle_pace (scenario_kernel 1000 False) \<lparr>max_entries = 65535, entries = []\<rparr>
          (scenario_skb 0) scenario_key None 0
        = (TAIL_CALL 0, \<lparr>max_entries = 65535, entries = [(scenario_key, 1000)]\<rparr>,
           scenario_skb 0)"
    by (simp add: throttle_pace_def scenario_skb_def scenario_kernel_def
        bpf_map_update_elem_def Let_def)
qed

section \<open>Throttling when the write fails\<close>

text \<open>
  C2. The claim: on every path of the throttle stage that writes the pacing entry, a failed
  write drops the packet, in the backlog branch and in the branch without backlog. The code
  does so in the backlog branch only. In the scenario's flow at time 1000000000, with the
  kernel failing the update: when the stored timestamp is 5 (the flow has been idle), the
  packet goes on to the next program and the entry is still 5; when the stored timestamp is
  1000000000 (a backlog), the packet is dropped.
\<close>

theorem C2_failed_write_without_backlog_continues:
  "loss_bps (scenario_kernel 1000000000 True)
     (scenario_maps scenario_spec [(scenario_key, 5)]) (scenario_skb 0)
     = Inr (TAIL_CALL 0, scenario_maps scenario_spec [(scenario_key, 5)], scenario_skb 0)
   \<and> loss_bps (scenario_kernel 1000000000 True)
       (scenario_maps scenario_spec [(scenario_key, 1000000000)]) (scenario_skb 0)
     = Inr (TC_ACT_SHOT, scenario_maps scenario_spec [(scenario_key, 1000000000)],
            scenario_skb 0)"
proof
  show "loss_bps (scenario_kernel 1000000000 True)
          (scenario_maps scenario_spec [(scenario_key, 5)]) (scenario_skb 0)
        = Inr (TAIL_CALL 0, scenario_maps scenario_spec [(scenario_key, 5)], scenario_skb 0)"
    by (simp add: loss_bps_def parse_scenario_frame scenario_defs bpf_map_lookup_elem_def
        loss_drop_def throttle_stage_def throttle_flow_def throttle_delay_ns_def NS_PER_SEC_def
        throttle_pace_def bpf_map_update_elem_def Let_def TIME_HORIZON_NS_def)
  show "loss_bps (scenario_kernel 1000000000 True)
          (scenario_maps scenario_spec [(scenario_key, 1000000000)]) (scenario_skb 0)
        = Inr (TC_ACT_SHOT, scenario_maps scenario_spec [(scenario_key, 1000000000)],
               scenario_skb 0)"
    by (simp add: loss_bps_def parse_scenario_frame scenario_defs bpf_map_lookup_elem_def
        loss_drop_def throttle_stage_def throttle_flow_def throttle_delay_ns_def NS_PER_SEC_def
        throttle_pace_def bpf_map_update_elem_def Let_def TIME_HORIZON_NS_def)
qed

section \<open>Delay and jitter: the base of the new timestamp\<close>

text \<open>
  C3, as amended. For every packet with a well-formed header whose flow has an impairment
  entry, \<^verbatim>\<open>delay_jitter\<close> accepts the packet and stamps it with its current timestamp if
  that is nonzero, else with now, plus \<^verbatim>\<open>delay_ns\<close> plus the jitter offset. As integers:
  the unsigned base plus the unsigned \<^verbatim>\<open>delay_ns\<close> plus the signed jitter offset, modulo
  \<open>2 ^ 64\<close>. A nonzero timestamp is the base whether or not it is already past.
\<close>

theorem C3_delay_base:
  assumes "parse_ethhdr (skb_data skb) = Some eth"
    and "bpf_map_lookup_elem (MAC_HANDLE_EMU maps)
           \<lparr>ifindex = skb_ifindex skb, src_mac = h_source eth\<rparr> = Some e"
    and "base = (if skb_tstamp skb = 0 then ktime_get_ns kern else skb_tstamp skb)"
  shows "delay_jitter kern maps skb =
           (TC_ACT_OK,
            skb\<lparr>skb_tstamp := base + hundredths_to_ns (delay e)
                                + random_jitter kern (hundredths_to_ns (jitter e))\<rparr>)
         \<and> uint (skb_tstamp (snd (delay_jitter kern maps skb))) =
             (uint base + uint (hundredths_to_ns (delay e))
              + sint (random_jitter kern (hundredths_to_ns (jitter e)))) mod 2 ^ 64"
  using assms by (simp add: delay_jitter_found uint_sum_signed)

text \<open>
  The scenario's packet with the stale timestamp 5, at time 1000, is stamped 1000005.
\<close>

theorem C3_witness:
  "parse_ethhdr (skb_data (scenario_skb 5)) =
     Some \<lparr>h_dest = [2, 0, 0, 0, 0, 1],
           h_source = [0xAA, 0xBB, 0xCC, 0xDD, 0xEE, 0xFF],
           h_proto = [8, 0]\<rparr>
   \<and> bpf_map_lookup_elem (MAC_HANDLE_EMU (scenario_maps scenario_spec [])) scenario_key
       = Some scenario_spec
   \<and> delay_jitter (scenario_kernel 1000 False) (scenario_maps scenario_spec []) (scenario_skb 5)
       = (TC_ACT_OK, scenario_skb 1000005)"
proof -
  have p: "parse_ethhdr (skb_data (scenario_skb 5)) =
     Some \<lparr>h_dest = [2, 0, 0, 0, 0, 1],
           h_source = [0xAA, 0xBB, 0xCC, 0xDD, 0xEE, 0xFF],
           h_proto = [8, 0]\<rparr>"
    by (simp add: scenario_skb_def parse_scenario_frame)
  have l: "bpf_map_lookup_elem (MAC_HANDLE_EMU (scenario_maps scenario_spec []))
             \<lparr>ifindex = skb_ifindex (scenario_skb 5),
                src_mac = h_source \<lparr>h_dest = [2, 0, 0, 0, 0, 1],
                   h_source = [0xAA, 0xBB, 0xCC, 0xDD, 0xEE, 0xFF], h_proto = [8, 0]\<rparr>\<rparr>
           = Some scenario_spec"
    by (simp add: scenario_defs bpf_map_lookup_elem_def)
  have l': "bpf_map_lookup_elem (MAC_HANDLE_EMU (scenario_maps scenario_spec [])) scenario_key
       = Some scenario_spec"
    by (simp add: scenario_defs bpf_map_lookup_elem_def)
  from C3_delay_base [OF p l refl, of "scenario_kernel 1000 False"]
  have "delay_jitter (scenario_kernel 1000 False) (scenario_maps scenario_spec []) (scenario_skb 5)
       = (TC_ACT_OK, scenario_skb 1000005)"
    by (simp add: scenario_defs hundredths_to_ns_def NS_PER_0_0_1_MS_def random_jitter_def)
  with p l' show ?thesis by simp
qed

text \<open>
  C3, as the claim states it: the base is the current timestamp only if that is nonzero and
  already in the future, else now. For the timestamp 5 at time 1000 the claim's base is
  1000; the program's stamp differs from the claim's sum.
\<close>

theorem C3_stale_timestamp_counterexample:
  "skb_tstamp (snd (delay_jitter (scenario_kernel 1000 False)
                      (scenario_maps scenario_spec []) (scenario_skb 5)))
   \<noteq> spec_delay_base 1000 5 + hundredths_to_ns (delay scenario_spec)
       + random_jitter (scenario_kernel 1000 False) (hundredths_to_ns (jitter scenario_spec))"
  by (simp add: delay_jitter_def parse_scenario_frame scenario_defs bpf_map_lookup_elem_def
      inject_delay_jitter_def hundredths_to_ns_def NS_PER_0_0_1_MS_def random_jitter_def Let_def
      spec_delay_base_def)

section \<open>Throttling: the horizon\<close>

text \<open>
  C4. For every throttled packet (the rate is not zero, so the duration \<open>d\<close> exists): let
  the base be the later of the packet's timestamp and now, and the candidate the stored
  timestamp of the flow, or the base when there is none, plus \<open>d\<close>. If there is a backlog
  (the candidate is after the base) and the candidate is 2 seconds or more after now, then
  \<^verbatim>\<open>throttle_flow\<close> drops the packet and returns the pacing table and the packet as they
  were: the next packet of the flow computes from the timestamp last stored.
\<close>

theorem C4_horizon_drop_keeps_pacing_state:
  assumes d: "throttle_delay_ns (skb_len skb) rate = Inr d"
    and cand: "cand = (case bpf_map_lookup_elem fm key of Some l \<Rightarrow> l
                       | None \<Rightarrow> departure kern skb) + d"
    and backlog: "departure kern skb < cand"
    and horizon: "unat (ktime_get_ns kern) + 2000000000 \<le> unat cand"
  shows "throttle_flow kern fm skb key rate = Inr (TC_ACT_SHOT, fm, skb)"
proof -
  let ?last = "bpf_map_lookup_elem fm key"
  let ?nxt = "case ?last of Some l \<Rightarrow> l + d | None \<Rightarrow> departure kern skb + d"
  have c: "cand = ?nxt" using cand by (simp only: case_plus)
  have nb: "\<not> ?nxt \<le> departure kern skb" using backlog c by (simp add: not_le)
  have "ktime_get_ns kern \<le> departure kern skb" by (rule departure_ge_now)
  with backlog have "ktime_get_ns kern \<le> cand" by simp
  then have "unat (cand - ktime_get_ns kern) = unat cand - unat (ktime_get_ns kern)"
    by (rule unat_sub)
  with horizon have "TIME_HORIZON_NS \<le> cand - ktime_get_ns kern"
    by (simp add: word_le_nat_alt horizon_unat)
  then have "throttle_pace kern fm skb key ?last d = (TC_ACT_SHOT, fm, skb)"
    using pace_backlog [OF nb c, of fm key] by simp
  then show ?thesis using d by (simp add: throttle_flow_def)
qed

text \<open>
  A stored timestamp of 3000000000 at time 1000: the candidate 3012000000 is beyond the
  horizon, the packet is dropped and the entry stays.
\<close>

theorem C4_witness:
  "throttle_delay_ns (skb_len (scenario_skb 0)) 1000000 = Inr 12000000
   \<and> departure (scenario_kernel 1000 False) (scenario_skb 0) < 3000000000 + 12000000
   \<and> unat (ktime_get_ns (scenario_kernel 1000 False)) + 2000000000
       \<le> unat (3000000000 + 12000000 :: u64)
   \<and> throttle_flow (scenario_kernel 1000 False)
        \<lparr>max_entries = 65535, entries = [(scenario_key, 3000000000)]\<rparr>
        (scenario_skb 0) scenario_key 1000000
      = Inr (TC_ACT_SHOT, \<lparr>max_entries = 65535, entries = [(scenario_key, 3000000000)]\<rparr>,
             scenario_skb 0)"
proof -
  let ?fm = "\<lparr>max_entries = 65535, entries = [(scenario_key, 3000000000 :: u64)]\<rparr>"
  let ?kern = "scenario_kernel 1000 False"
  have d: "throttle_delay_ns (skb_len (scenario_skb 0)) 1000000 = Inr 12000000"
    by (simp add: throttle_delay_ns_def scenario_skb_def NS_PER_SEC_def)
  have c: "(3000000000 + 12000000 :: u64)
           = (case bpf_map_lookup_elem ?fm scenario_key of Some l \<Rightarrow> l
              | None \<Rightarrow> departure ?kern (scenario_skb 0)) + 12000000"
    by (simp add: bpf_map_lookup_elem_def)
  have b: "departure ?kern (scenario_skb 0) < 3000000000 + 12000000"
    by (simp add: departure_def scenario_skb_def scenario_kernel_def)
  have h: "unat (ktime_get_ns ?kern) + 2000000000 \<le> unat (3000000000 + 12000000 :: u64)"
    by (simp add: scenario_kernel_def)
  show ?thesis
    using d b h C4_horizon_drop_keeps_pacing_state [OF d c b h] by simp
qed

section \<open>Delay and jitter: the conversion to nanoseconds\<close>

text \<open>
  C5. The claim: with \<^verbatim>\<open>delay_ns = D * 10000\<close> and \<^verbatim>\<open>jitter_ns = J * 10000\<close>, a packet
  that arrives with an unset timestamp is scheduled between \<^verbatim>\<open>delay_ns - jitter_ns\<close> and
  \<^verbatim>\<open>delay_ns + jitter_ns\<close> after now. The code multiplies in 32 bits, so this fails once
  \<^verbatim>\<open>D * 10000\<close> no longer fits: with a delay of 500000 (five seconds) and no jitter, the
  packet that arrives at time 1000 is scheduled 705032704 ns later, not 5000000000 ns.
\<close>

theorem C5_five_second_delay_wraps:
  "delay_jitter (scenario_kernel 1000 False)
     (scenario_maps (scenario_spec\<lparr>delay := 500000\<rparr>) []) (scenario_skb 0)
     = (TC_ACT_OK, scenario_skb (1000 + 705032704))
   \<and> unat (hundredths_to_ns 500000) = 705032704
   \<and> (705032704 :: nat) < 500000 * 10000"
  by (simp add: delay_jitter_def parse_scenario_frame scenario_defs bpf_map_lookup_elem_def
      inject_delay_jitter_def hundredths_to_ns_def NS_PER_0_0_1_MS_def random_jitter_def Let_def)

section \<open>Loss\<close>

text \<open>
  C6. For every packet with a well-formed header, with \<open>draw\<close> the random number modulo
  10000: the draw is below 10000; a flow without entry is accepted; a flow whose loss rate is
  0 goes on to the throttle stage; otherwise the packet is dropped at once, with tables and
  packet unchanged, if the draw is less than the loss rate, and goes on to the throttle stage
  if it is not.
\<close>

theorem C6_loss_stage:
  assumes "parse_ethhdr (skb_data skb) = Some eth"
    and "key = \<lparr>ifindex = skb_ifindex skb, src_mac = h_source eth\<rparr>"
    and "draw = unat (get_prandom_u32 kern) mod 10000"
  shows "draw < 10000 \<and>
         loss_bps kern maps skb =
           (case bpf_map_lookup_elem (MAC_HANDLE_EMU maps) key of
              None \<Rightarrow> Inr (TC_ACT_OK, maps, skb)
            | Some e \<Rightarrow>
                if loss_rate e = 0 then throttle_stage kern maps skb key (throttle_rate_bps e)
                else if draw < unat (loss_rate e) then Inr (TC_ACT_SHOT, maps, skb)
                else throttle_stage kern maps skb key (throttle_rate_bps e))"
proof -
  have "unat (get_prandom_u32 kern mod PKT_LOSS_SCOPE) = draw"
    using assms(3) by (simp add: unat_mod PKT_LOSS_SCOPE_def)
  then have "loss_drop kern r \<longleftrightarrow> r \<noteq> 0 \<and> draw < unat r" for r
    by (simp add: loss_drop_def word_less_nat_alt unat_gt_0)
  then show ?thesis
    using assms by (simp add: loss_bps_def Let_def split: option.split)
qed

text \<open>
  A loss rate of 5000 and the draw 7: the packet is dropped.
\<close>

theorem C6_witness:
  "parse_ethhdr (skb_data (scenario_skb 0)) =
     Some \<lparr>h_dest = [2, 0, 0, 0, 0, 1],
           h_source = [0xAA, 0xBB, 0xCC, 0xDD, 0xEE, 0xFF],
           h_proto = [8, 0]\<rparr>
   \<and> loss_bps (scenario_kernel 1000 False)
        (scenario_maps (scenario_spec\<lparr>loss_rate := 5000\<rparr>) []) (scenario_skb 0)
      = Inr (TC_ACT_SHOT, scenario_maps (scenario_spec\<lparr>loss_rate := 5000\<rparr>) [], scenario_skb 0)"
proof -
  have p: "parse_ethhdr (skb_data (scenario_skb 0)) =
     Some \<lparr>h_dest = [2, 0, 0, 0, 0, 1],
           h_source = [0xAA, 0xBB, 0xCC, 0xDD, 0xEE, 0xFF],
           h_proto = [8, 0]\<rparr>"
    by (simp add: scenario_skb_def parse_scenario_frame)
  from C6_loss_stage [OF p refl refl, of "scenario_kernel 1000 False"
      "scenario_maps (scenario_spec\<lparr>loss_rate := 5000\<rparr>) []"]
  have "loss_bps (scenario_kernel 1000 False)
        (scenario_maps (scenario_spec\<lparr>loss_rate := 5000\<rparr>) []) (scenario_skb 0)
      = Inr (TC_ACT_SHOT, scenario_maps (scenario_spec\<lparr>loss_rate := 5000\<rparr>) [], scenario_skb 0)"
    by (simp add: scenario_defs bpf_map_lookup_elem_def)
  with p show ?thesis by simp
qed

section \<open>Forwarding\<close>

text \<open>
  C7, as amended. For every packet with a well-formed ethernet header: if the low-order bit
  of the first byte of the destination address is 1, the packet is sent to the interface of
  every entry of \<^verbatim>\<open>tx_ports\<close> except the ingress interface. Otherwise, if the destination
  is in \<^verbatim>\<open>mac_table\<close> and \<^verbatim>\<open>tx_ports\<close> has an entry under the configured interface id,
  the packet is redirected to that entry's interface and to no other; if \<^verbatim>\<open>tx_ports\<close> has
  no such entry, the program returns \<^verbatim>\<open>XDP_ABORTED\<close> and the packet is sent nowhere.
  Otherwise the program returns \<^verbatim>\<open>XDP_PASS\<close>: the packet goes to default delivery.
\<close>

theorem C7_forwarding_disposition:
  assumes "ETH_HLEN \<le> length (xdp_data ctx)"
    and "dest = take ETH_ALEN (xdp_data ctx)"
    and "out = xdp_l2_fwd_prog maps ctx"
    and "sent = egress_interfaces (tx_ports maps) (ingress_ifindex ctx) out"
  shows "if bit (dest ! 0) 0 then
           out = (XDP_REDIRECT, To_all True)
           \<and> sent = (\<lambda>e. dev_ifindex (snd e)) ` set (entries (tx_ports maps)) - {ingress_ifindex ctx}
         else
           (case bpf_map_lookup_elem (mac_table maps) \<lparr>mac = dest\<rparr> of
              None \<Rightarrow> out = (XDP_PASS, No_redirect) \<and> sent = {}
            | Some k \<Rightarrow>
                (case bpf_map_lookup_elem (tx_ports maps) k of
                   Some v \<Rightarrow> out = (XDP_REDIRECT, To_device v) \<and> sent = {dev_ifindex v}
                 | None \<Rightarrow> out = (XDP_ABORTED, No_redirect) \<and> sent = {}))"
proof -
  have n: "\<not> length (xdp_data ctx) < ETH_HLEN" using assms(1) by simp
  have p: "xdp_l2_fwd_prog maps ctx =
      (if bit (dest ! 0) 0 then
         bpf_redirect_map (tx_ports maps) 0 (BPF_F_BROADCAST OR BPF_F_EXCLUDE_INGRESS)
       else
         (case bpf_map_lookup_elem (mac_table maps) \<lparr>mac = dest\<rparr> of
            Some dest_ifindex \<Rightarrow> bpf_redirect_map (tx_ports maps) dest_ifindex 0
          | None \<Rightarrow> (XDP_PASS, No_redirect)))"
    using n assms(2) by (simp add: xdp_l2_fwd_prog_def Let_def low_bit)
  show ?thesis
    using assms(3,4)
    by (auto simp add: p broadcast_flags unicast_flags egress_interfaces_def
        split: option.split)
qed

text \<open>
  The scenario's frame, with interface 5 registered in \<^verbatim>\<open>tx_ports\<close>, is redirected to 5.
\<close>

theorem C7_witness:
  "ETH_HLEN \<le> length (xdp_data scenario_ctx)
   \<and> xdp_l2_fwd_prog (scenario_xdp_maps [(5, \<lparr>dev_ifindex = 5, dev_prog = 0\<rparr>)]) scenario_ctx
       = (XDP_REDIRECT, To_device \<lparr>dev_ifindex = 5, dev_prog = 0\<rparr>)
   \<and> egress_interfaces (tx_ports (scenario_xdp_maps [(5, \<lparr>dev_ifindex = 5, dev_prog = 0\<rparr>)]))
        (ingress_ifindex scenario_ctx)
        (xdp_l2_fwd_prog (scenario_xdp_maps [(5, \<lparr>dev_ifindex = 5, dev_prog = 0\<rparr>)]) scenario_ctx)
       = {5}"
proof -
  have h: "ETH_HLEN \<le> length (xdp_data scenario_ctx)"
    by (simp add: scenario_ctx_def scenario_frame_def ETH_HLEN_def)
  show ?thesis
    using h C7_forwarding_disposition [OF h refl refl refl,
        of "scenario_xdp_maps [(5, \<lparr>dev_ifindex = 5, dev_prog = 0\<rparr>)]"]
    by (simp add: scenario_ctx_def scenario_frame_def scenario_xdp_maps_def ETH_ALEN_def
        bpf_map_lookup_elem_def egress_interfaces_def)
qed

text \<open>
  C7, as the claim states it: a destination in the forwarding table is redirected to the
  configured egress interface. With the destination configured for interface 5 and
  \<^verbatim>\<open>tx_ports\<close> empty, the program returns \<^verbatim>\<open>XDP_ABORTED\<close> and interface 5 does not get
  the packet.
\<close>

theorem C7_unregistered_egress_counterexample:
  "bpf_map_lookup_elem (mac_table (scenario_xdp_maps []))
     \<lparr>mac = take ETH_ALEN (xdp_data scenario_ctx)\<rparr> = Some 5
   \<and> xdp_l2_fwd_prog (scenario_xdp_maps []) scenario_ctx = (XDP_ABORTED, No_redirect)
   \<and> egress_interfaces (tx_ports (scenario_xdp_maps [])) (ingress_ifindex scenario_ctx)
        (xdp_l2_fwd_prog (scenario_xdp_maps []) scenario_ctx) \<noteq> {5}"
  by (simp add: scenario_ctx_def scenario_frame_def scenario_xdp_maps_def ETH_ALEN_def
      ETH_HLEN_def bpf_map_lookup_elem_def xdp_l2_fwd_prog_def Let_def unicast_flags
      egress_interfaces_def)

section \<open>Truncated headers\<close>

text \<open>
  C8. For every packet whose ethernet header is truncated (fewer than 14 bytes), the
  forwarding program returns \<^verbatim>\<open>XDP_DROP\<close> and both impairment programs return
  \<^verbatim>\<open>TC_ACT_SHOT\<close>, with the packet and the tables as they were. This holds whatever the
  tables and the kernel's answers are: the outcome is decided before any table is read.
\<close>

theorem C8_truncated_header_dropped:
  assumes "length (xdp_data ctx) < ETH_HLEN" and "length (skb_data skb) < ETH_HLEN"
  shows "xdp_l2_fwd_prog xmaps ctx = (XDP_DROP, No_redirect)
         \<and> delay_jitter kern maps skb = (TC_ACT_SHOT, skb)
         \<and> loss_bps kern maps skb = Inr (TC_ACT_SHOT, maps, skb)"
  using assms by (simp add: xdp_l2_fwd_prog_def delay_jitter_def loss_bps_def parse_ethhdr_def)

text \<open>
  A packet of seven bytes is dropped by each of the three programs.
\<close>

theorem C8_witness:
  "length (xdp_data \<lparr>xdp_data = [2, 0, 0, 0, 0, 1, 0xAA], ingress_ifindex = 3\<rparr>) < ETH_HLEN
   \<and> length (skb_data \<lparr>skb_len = 7, skb_ifindex = 3, skb_tstamp = 0,
                         skb_data = [2, 0, 0, 0, 0, 1, 0xAA]\<rparr>) < ETH_HLEN
   \<and> xdp_l2_fwd_prog (scenario_xdp_maps [])
        \<lparr>xdp_data = [2, 0, 0, 0, 0, 1, 0xAA], ingress_ifindex = 3\<rparr> = (XDP_DROP, No_redirect)
   \<and> delay_jitter (scenario_kernel 1000 False) (scenario_maps scenario_spec [])
        \<lparr>skb_len = 7, skb_ifindex = 3, skb_tstamp = 0, skb_data = [2, 0, 0, 0, 0, 1, 0xAA]\<rparr>
       = (TC_ACT_SHOT,
          \<lparr>skb_len = 7, skb_ifindex = 3, skb_tstamp = 0, skb_data = [2, 0, 0, 0, 0, 1, 0xAA]\<rparr>)
   \<and> loss_bps (scenario_kernel 1000 False) (scenario_maps scenario_spec [])
        \<lparr>skb_len = 7, skb_ifindex = 3, skb_tstamp = 0, skb_data = [2, 0, 0, 0, 0, 1, 0xAA]\<rparr>
       = Inr (TC_ACT_SHOT, scenario_maps scenario_spec [],
              \<lparr>skb_len = 7, skb_ifindex = 3, skb_tstamp = 0, skb_data = [2, 0, 0, 0, 0, 1, 0xAA]\<rparr>)"
proof -
  have a: "length (xdp_data \<lparr>xdp_data = [2, 0, 0, 0, 0, 1, 0xAA], ingress_ifindex = 3\<rparr>) < ETH_HLEN"
    by (simp add: ETH_HLEN_def)
  have b: "length (skb_data \<lparr>skb_len = 7, skb_ifindex = 3, skb_tstamp = 0,
                         skb_data = [2, 0, 0, 0, 0, 1, 0xAA]\<rparr>) < ETH_HLEN"
    by (simp add: ETH_HLEN_def)
  show ?thesis
    using a b C8_truncated_header_dropped [OF a b, of "scenario_xdp_maps []"
        "scenario_kernel 1000 False" "scenario_maps scenario_spec []"]
    by simp
qed

section \<open>Table capacities\<close>

text \<open>
  C9, as amended. Whatever sequence of updates is made to a table as the sources declare it,
  it never holds more entries than its declared capacity, and never two entries for a key:
  65535 for \<^verbatim>\<open>mac_table\<close>, the forwarding table that \<^verbatim>\<open>xdp_l2_fwd_prog\<close> reads; 1024 for
  the device map \<^verbatim>\<open>tx_ports\<close> and for \<^verbatim>\<open>fdb_map\<close>, which the program does not use; 65535
  for the flow-impairment table \<^verbatim>\<open>MAC_HANDLE_EMU\<close> and for the pacing table
  \<^verbatim>\<open>flow_map\<close>.
\<close>

theorem C9_table_capacities:
  "length (entries (bpf_map_updates calls1 mac_table_decl)) \<le> 65535
   \<and> distinct (map fst (entries (bpf_map_updates calls1 mac_table_decl)))
   \<and> length (entries (bpf_map_updates calls2 tx_ports_decl)) \<le> 1024
   \<and> distinct (map fst (entries (bpf_map_updates calls2 tx_ports_decl)))
   \<and> length (entries (bpf_map_updates calls3 fdb_map_decl)) \<le> 1024
   \<and> distinct (map fst (entries (bpf_map_updates calls3 fdb_map_decl)))
   \<and> length (entries (bpf_map_updates calls4 MAC_HANDLE_EMU_decl)) \<le> 65535
   \<and> distinct (map fst (entries (bpf_map_updates calls4 MAC_HANDLE_EMU_decl)))
   \<and> length (entries (bpf_map_updates calls5 flow_map_decl)) \<le> 65535
   \<and> distinct (map fst (entries (bpf_map_updates calls5 flow_map_decl)))"
  using updates_within_capacity [of mac_table_decl calls1]
    updates_within_capacity [of tx_ports_decl calls2]
    updates_within_capacity [of fdb_map_decl calls3]
    updates_within_capacity [of MAC_HANDLE_EMU_decl calls4]
    updates_within_capacity [of flow_map_decl calls5]
  by (simp add: mac_table_decl_def tx_ports_decl_def fdb_map_decl_def MAC_HANDLE_EMU_decl_def
      flow_map_decl_def)

lemma mac_of_nat_inj:
  assumes "mac_of_nat i = mac_of_nat j" and "i < 65536" and "j < 65536"
  shows "i = j"
proof -
  from assms(1) have hi: "(word_of_nat (i div 256) :: u8) = word_of_nat (j div 256)"
    and lo: "(word_of_nat (i mod 256) :: u8) = word_of_nat (j mod 256)"
    by (simp_all add: mac_of_nat_def)
  from hi have "unat (word_of_nat (i div 256) :: u8) = unat (word_of_nat (j div 256) :: u8)"
    by simp
  then have "i div 256 mod 256 = j div 256 mod 256"
    by (simp add: unat_of_nat)
  moreover have "i div 256 < 256" "j div 256 < 256"
    using assms(2,3) by simp_all
  ultimately have h: "i div 256 = j div 256" by simp
  from lo have "unat (word_of_nat (i mod 256) :: u8) = unat (word_of_nat (j mod 256) :: u8)"
    by simp
  then have l: "i mod 256 = j mod 256"
    by (simp add: unat_of_nat)
  have "i = 256 * (i div 256) + i mod 256" by simp
  also have "\<dots> = 256 * (j div 256) + j mod 256" using h l by simp
  also have "\<dots> = j" by simp
  finally show ?thesis .
qed

lemma learn_macs_Suc: "learn_macs (Suc n) = learn_macs n @ [(False, mac_of_nat n, 1)]"
  by (simp add: learn_macs_def)

lemma learn_macs_state:
  assumes "n \<le> 65535"
  shows "length (entries (bpf_map_updates (learn_macs n) mac_table_decl)) = n
         \<and> fst ` set (entries (bpf_map_updates (learn_macs n) mac_table_decl)) = mac_of_nat ` {0..<n}
         \<and> max_entries (bpf_map_updates (learn_macs n) mac_table_decl) = 65535"
  using assms
proof (induction n)
  case 0
  then show ?case by (simp add: learn_macs_def mac_table_decl_def)
next
  case (Suc n)
  let ?m = "bpf_map_updates (learn_macs n) mac_table_decl"
  from Suc have len: "length (entries ?m) = n"
    and keys: "fst ` set (entries ?m) = mac_of_nat ` {0..<n}"
    and cap: "max_entries ?m = 65535" by simp_all
  have new: "mac_of_nat n \<notin> fst ` set (entries ?m)"
  proof
    assume "mac_of_nat n \<in> fst ` set (entries ?m)"
    then obtain i where "i < n" and "mac_of_nat n = mac_of_nat i"
      using keys by auto
    moreover have "n < 65536" "i < 65536" using Suc.prems \<open>i < n\<close> by simp_all
    ultimately show False using mac_of_nat_inj [of n i] by simp
  qed
  then have none: "map_of (entries ?m) (mac_of_nat n) = None"
    by (simp add: map_of_eq_None_iff)
  have room: "\<not> max_entries ?m \<le> length (entries ?m)"
    using Suc.prems len cap by simp
  have step: "bpf_map_updates (learn_macs (Suc n)) mac_table_decl
              = ?m\<lparr>entries := AList.update (mac_of_nat n) 1 (entries ?m)\<rparr>"
    using none room
    by (simp add: learn_macs_Suc updates_append bpf_map_update_elem_def)
  show ?case
    using new len keys cap
    by (auto simp add: step length_alist_update dom_update atLeast0_lessThan_Suc)
qed

text \<open>
  C9, as the claim states it: the forwarding table holds at most 1024 entries. After 1025
  distinct addresses have been learned, \<^verbatim>\<open>mac_table\<close> holds more.
\<close>

theorem C9_forwarding_table_counterexample:
  "\<not> length (entries (bpf_map_updates (learn_macs 1025) mac_table_decl)) \<le> 1024"
  using learn_macs_state [of 1025] by simp

section \<open>The transmission duration and the concrete scenario\<close>




end
